theory Spec2Isabelle
  imports Main "HOL-Library.Sublist"
begin

section \<open>Values exchanged with the remote service\<close>

text \<open>
  The server of \<^verbatim>\<open>index.ts\<close> forwards whatever \<^verbatim>\<open>response.json()\<close> yields: a
  JavaScript value built from null, booleans, numbers, strings, arrays and plain objects.
  A JavaScript number is a finite IEEE double or one of the three non-finite values. The
  finite ones are kept abstract (the type \<open>'f\<close>): the routine of the platform that prints
  a finite number (\<open>toStr\<close>) is a parameter of everything that serialises, and the one that
  reads a number literal (\<open>toNum\<close>) a parameter of everything that parses. An object is
  the list of its own properties in enumeration order; no two of them have the same key.
  Strings are HOL strings, so a character is one of the 256 characters of HOL.
\<close>

datatype 'f jsnumber = Finite 'f | PosInfinity | NegInfinity | NaN

datatype 'f json =
    JNull
  | JBool bool
  | JNumber "'f jsnumber"
  | JString string
  | JArray "'f json list"
  | JObject "(string \<times> 'f json) list"

text \<open>
  A thrown value: an \<^verbatim>\<open>Error\<close> instance (or an instance of a subclass) with its
  message, or any other value, of which only an opaque label is kept.
\<close>

datatype thrown = Error string | NonError string

subsection \<open>Decimal numerals\<close>

definition digit_char :: "nat \<Rightarrow> char" where
  "digit_char d = char_of (48 + d)"

function string_of_nat :: "nat \<Rightarrow> string" where
  "string_of_nat n =
     (if n < 10 then [digit_char n]
      else string_of_nat (n div 10) @ [digit_char (n mod 10)])"
  by pat_completeness auto
termination
  by (relation "measure (\<lambda>n. n)") auto

declare string_of_nat.simps [simp del]

section \<open>The network\<close>

text \<open>
  \<^verbatim>\<open>fetch\<close> either rejects with a thrown value or resolves to a response. Of a response
  the code reads \<^verbatim>\<open>ok\<close>, \<^verbatim>\<open>status\<close>, \<^verbatim>\<open>statusText\<close> and the outcome of
  \<^verbatim>\<open>json()\<close>, which is a decoded value or a thrown one. \<^verbatim>\<open>ok\<close> is true exactly for
  the statuses 200 to 299.
\<close>

record 'f response =
  status :: nat
  statusText :: string
  json :: "thrown + 'f json"

definition ok :: "'f response \<Rightarrow> bool" where
  "ok r = (200 \<le> status r \<and> status r \<le> 299)"

datatype 'f fetch_outcome = Rejects thrown | Resolves "'f response"

record http_request =
  url :: string
  headers :: "(string \<times> string) list"

text \<open>
  The only effect of the program is the sequence of requests it has sent. The remote side
  is a function of the requests sent so far and the current one, so that it may answer the
  same request differently at different times.
\<close>

record world =
  sent :: "http_request list"

type_synonym 'f network = "http_request list \<Rightarrow> http_request \<Rightarrow> 'f fetch_outcome"

definition fetch :: "'f network \<Rightarrow> http_request \<Rightarrow> world \<Rightarrow> 'f fetch_outcome \<times> world" where
  "fetch net req w = (net (sent w) req, w\<lparr>sent := sent w @ [req]\<rparr>)"

section \<open>The API gateway: \<^verbatim>\<open>makeApiRequest\<close>\<close>

definition BASE_URL :: string where
  "BASE_URL = ''https://api.danecounty.gov''"

definition request_headers :: "(string \<times> string) list" where
  "request_headers =
     [(''Accept'', ''application/json''),
      (''User-Agent'', ''dane-county-elections-mcp/1.0.0'')]"

text \<open>The body of the \<^verbatim>\<open>try\<close> block, lines 19 to 33.\<close>

definition makeApiRequest_try :: "'f network \<Rightarrow> string \<Rightarrow> world \<Rightarrow> (thrown + 'f json) \<times> world" where
  "makeApiRequest_try net u w =
     (case fetch net \<lparr>url = u, headers = request_headers\<rparr> w of
        (Rejects e, w') \<Rightarrow> (Inl e, w')
      | (Resolves response, w') \<Rightarrow>
          if \<not> ok response then
            (Inl (Error (''API request failed: '' @ string_of_nat (status response)
                          @ '' '' @ statusText response)), w')
          else (json response, w'))"

text \<open>The \<^verbatim>\<open>catch\<close> block, lines 34 to 39.\<close>

definition makeApiRequest_catch :: "thrown \<Rightarrow> thrown" where
  "makeApiRequest_catch error =
     (case error of
        Error message \<Rightarrow> Error (''Failed to fetch from Dane County Elections API: '' @ message)
      | NonError v \<Rightarrow> NonError v)"

definition makeApiRequest :: "'f network \<Rightarrow> string \<Rightarrow> world \<Rightarrow> (thrown + 'f json) \<times> world" where
  "makeApiRequest net endpoint w =
     (case makeApiRequest_try net (BASE_URL @ endpoint) w of
        (Inl error, w') \<Rightarrow> (Inl (makeApiRequest_catch error), w')
      | (Inr data, w') \<Rightarrow> (Inr data, w'))"

section \<open>The tool registry: \<^verbatim>\<open>TOOLS\<close>\<close>

record property =
  prop_type :: string
  prop_description :: string

record input_schema =
  schema_type :: string
  properties :: "(string \<times> property) list"
  required :: "string list option"

record tool =
  tool_name :: string
  tool_description :: string
  inputSchema :: input_schema

definition electionid_property :: "string \<times> property" where
  "electionid_property =
     (''electionid'',
      \<lparr>prop_type = ''string'', prop_description = ''The unique identifier for the election''\<rparr>)"

definition TOOLS :: "tool list" where
  "TOOLS =
    [\<lparr>tool_name = ''list_elections'',
      tool_description = ''Get a list of all available elections in Dane County'',
      inputSchema = \<lparr>schema_type = ''object'', properties = [], required = None\<rparr>\<rparr>,
     \<lparr>tool_name = ''get_election'',
      tool_description = ''Get detailed information about a specific election by its ID'',
      inputSchema = \<lparr>schema_type = ''object'', properties = [electionid_property],
                     required = Some [''electionid'']\<rparr>\<rparr>,
     \<lparr>tool_name = ''get_last_published'',
      tool_description = ''Get the last published timestamp for a specific election'',
      inputSchema = \<lparr>schema_type = ''object'', properties = [electionid_property],
                     required = Some [''electionid'']\<rparr>\<rparr>,
     \<lparr>tool_name = ''get_races'',
      tool_description = ''Get all races for a specific election'',
      inputSchema = \<lparr>schema_type = ''object'', properties = [electionid_property],
                     required = Some [''electionid'']\<rparr>\<rparr>,
     \<lparr>tool_name = ''get_election_results'',
      tool_description =
        ''Get results for all races in an election, or for a specific race if racenumber is provided'',
      inputSchema = \<lparr>schema_type = ''object'',
                     properties =
                       [electionid_property,
                        (''racenumber'',
                         \<lparr>prop_type = ''string'',
                          prop_description =
                            ''Optional: The race number to get specific race results''\<rparr>)],
                     required = Some [''electionid'']\<rparr>\<rparr>,
     \<lparr>tool_name = ''get_precinct_results'',
      tool_description = ''Get precinct-level results for a specific race in an election'',
      inputSchema = \<lparr>schema_type = ''object'',
                     properties =
                       [electionid_property,
                        (''racenumber'',
                         \<lparr>prop_type = ''string'',
                          prop_description = ''The race number to get precinct results for''\<rparr>)],
                     required = Some [''electionid'', ''racenumber'']\<rparr>\<rparr>]"

text \<open>The parameters a descriptor declares required; a schema without the key declares none.\<close>

definition required_params :: "tool \<Rightarrow> string list" where
  "required_params t = (case required (inputSchema t) of None \<Rightarrow> [] | Some ps \<Rightarrow> ps)"

section \<open>The dispatcher: \<^verbatim>\<open>handleToolCall\<close>\<close>

text \<open>
  The arguments of a call are a mapping from parameter names to strings, as the input
  schemas declare them. Reading an absent key gives \<^verbatim>\<open>undefined\<close>, here \<open>None\<close>.
  \<^verbatim>\<open>!x\<close> holds of \<^verbatim>\<open>undefined\<close> and of the empty string; a template literal prints
  \<^verbatim>\<open>undefined\<close> as that word and a string as itself.
\<close>

type_synonym args = "string \<rightharpoonup> string"

definition falsy :: "string option \<Rightarrow> bool" where
  "falsy v = (case v of None \<Rightarrow> True | Some s \<Rightarrow> s = [])"

definition interpolate :: "string option \<Rightarrow> string" where
  "interpolate v = (case v of None \<Rightarrow> ''undefined'' | Some s \<Rightarrow> s)"

definition handleToolCall :: "'f network \<Rightarrow> string \<Rightarrow> args \<Rightarrow> world \<Rightarrow> (thrown + 'f json) \<times> world" where
  "handleToolCall net name args w =
     (if name = ''list_elections'' then
        makeApiRequest net ''/api/v1/elections/list'' w
      else if name = ''get_election'' then
        (if falsy (args ''electionid'') then (Inl (Error ''electionid is required''), w)
         else makeApiRequest net
                (''/api/v1/elections/election/'' @ interpolate (args ''electionid'')) w)
      else if name = ''get_last_published'' then
        (if falsy (args ''electionid'') then (Inl (Error ''electionid is required''), w)
         else makeApiRequest net
                (''/api/v1/elections/lastpublished/'' @ interpolate (args ''electionid'')) w)
      else if name = ''get_races'' then
        (if falsy (args ''electionid'') then (Inl (Error ''electionid is required''), w)
         else makeApiRequest net
                (''/api/v1/elections/races/'' @ interpolate (args ''electionid'')) w)
      else if name = ''get_election_results'' then
        (if falsy (args ''electionid'') then (Inl (Error ''electionid is required''), w)
         else
           (let resultsEndpoint =
                  (if \<not> falsy (args ''racenumber'') then
                     ''/api/v1/elections/electionresults/'' @ interpolate (args ''electionid'')
                       @ ''/'' @ interpolate (args ''racenumber'')
                   else ''/api/v1/elections/electionresults/'' @ interpolate (args ''electionid''))
            in makeApiRequest net resultsEndpoint w))
      else if name = ''get_precinct_results'' then
        (if falsy (args ''electionid'') \<or> falsy (args ''racenumber'') then
           (Inl (Error ''electionid and racenumber are required''), w)
         else makeApiRequest net
                (''/api/v1/elections/precinctresults/'' @ interpolate (args ''electionid'')
                   @ ''/'' @ interpolate (args ''racenumber'')) w)
      else (Inl (Error (''Unknown tool: '' @ name)), w))"

section \<open>Serialisation: \<^verbatim>\<open>JSON.stringify(value, null, 2)\<close>\<close>

text \<open>
  The serialisation is ECMAScript's \<^verbatim>\<open>SerializeJSONProperty\<close> with the gap of two
  spaces, restricted to the values above: no \<^verbatim>\<open>toJSON\<close> method, no replacer.
\<close>

definition dquote :: char where
  "dquote = CHR 0x22"

definition backslash :: char where
  "backslash = CHR 0x5C"

definition newline :: char where
  "newline = CHR 0x0A"

definition hex_char :: "nat \<Rightarrow> char" where
  "hex_char d = (if d < 10 then char_of (48 + d) else char_of (87 + d))"

definition UnicodeEscape :: "char \<Rightarrow> string" where
  "UnicodeEscape c =
     (let n = (of_char c :: nat)
      in [backslash, CHR ''u'', hex_char (n div 4096 mod 16), hex_char (n div 256 mod 16),
          hex_char (n div 16 mod 16), hex_char (n mod 16)])"

definition quote_char :: "char \<Rightarrow> string" where
  "quote_char c =
     (if c = CHR 0x08 then [backslash, CHR ''b'']
      else if c = CHR 0x09 then [backslash, CHR ''t'']
      else if c = CHR 0x0A then [backslash, CHR ''n'']
      else if c = CHR 0x0C then [backslash, CHR ''f'']
      else if c = CHR 0x0D then [backslash, CHR ''r'']
      else if c = dquote then [backslash, dquote]
      else if c = backslash then [backslash, backslash]
      else if (of_char c :: nat) < 32 then UnicodeEscape c
      else [c])"

definition QuoteJSONString :: "string \<Rightarrow> string" where
  "QuoteJSONString s = dquote # concat (map quote_char s) @ [dquote]"

fun join :: "string \<Rightarrow> string list \<Rightarrow> string" where
  "join sep [] = []"
| "join sep [x] = x"
| "join sep (x # y # ys) = x @ sep @ join sep (y # ys)"

definition gap :: string where
  "gap = ''  ''"

fun SerializeJSONProperty :: "('f \<Rightarrow> string) \<Rightarrow> string \<Rightarrow> 'f json \<Rightarrow> string" where
  "SerializeJSONProperty toStr indent JNull = ''null''"
| "SerializeJSONProperty toStr indent (JBool b) = (if b then ''true'' else ''false'')"
| "SerializeJSONProperty toStr indent (JNumber n) =
     (case n of Finite x \<Rightarrow> toStr x | _ \<Rightarrow> ''null'')"
| "SerializeJSONProperty toStr indent (JString s) = QuoteJSONString s"
| "SerializeJSONProperty toStr indent (JArray vs) =
     (if vs = [] then ''[]''
      else ''['' @ [newline] @ (indent @ gap)
             @ join ('','' @ [newline] @ (indent @ gap))
                 (map (SerializeJSONProperty toStr (indent @ gap)) vs)
             @ [newline] @ indent @ '']'')"
| "SerializeJSONProperty toStr indent (JObject kvs) =
     (if kvs = [] then ''{}''
      else ''{'' @ [newline] @ (indent @ gap)
             @ join ('','' @ [newline] @ (indent @ gap))
                 (map (\<lambda>(k, v). QuoteJSONString k @ '':'' @ '' ''
                                  @ SerializeJSONProperty toStr (indent @ gap) v) kvs)
             @ [newline] @ indent @ ''}'')"

definition JSON_stringify :: "('f \<Rightarrow> string) \<Rightarrow> 'f json \<Rightarrow> string" where
  "JSON_stringify toStr v = SerializeJSONProperty toStr [] v"

section \<open>The request handlers registered in \<^verbatim>\<open>main\<close>\<close>

record content_block =
  block_type :: string
  block_text :: string

text \<open>The key \<^verbatim>\<open>isError\<close> is absent from the envelope of a success: \<open>None\<close>.\<close>

record envelope =
  content :: "content_block list"
  isError :: "bool option"

record call_request =
  params_name :: string
  params_arguments :: "args option"

text \<open>The \<^verbatim>\<open>try\<close> block of the call handler, lines 210 to 220.\<close>

definition callToolHandler_try ::
  "('f \<Rightarrow> string) \<Rightarrow> 'f network \<Rightarrow> call_request \<Rightarrow> world \<Rightarrow> (thrown + envelope) \<times> world" where
  "callToolHandler_try toStr net request w =
     (let name = params_name request;
          args = params_arguments request
      in case handleToolCall net name (case args of None \<Rightarrow> Map.empty | Some a \<Rightarrow> a) w of
           (Inl error, w') \<Rightarrow> (Inl error, w')
         | (Inr result, w') \<Rightarrow>
             (Inr \<lparr>content = [\<lparr>block_type = ''text'',
                                block_text = JSON_stringify toStr result\<rparr>],
                   isError = None\<rparr>, w'))"

text \<open>The \<^verbatim>\<open>catch\<close> block of the call handler, lines 221 to 234.\<close>

definition callToolHandler_catch :: "thrown \<Rightarrow> envelope" where
  "callToolHandler_catch error =
     (let errorMessage = (case error of Error message \<Rightarrow> message
                                       | NonError v \<Rightarrow> ''Unknown error occurred'')
      in \<lparr>content = [\<lparr>block_type = ''text'', block_text = ''Error: '' @ errorMessage\<rparr>],
          isError = Some True\<rparr>)"

definition callToolHandler ::
  "('f \<Rightarrow> string) \<Rightarrow> 'f network \<Rightarrow> call_request \<Rightarrow> world \<Rightarrow> (thrown + envelope) \<times> world" where
  "callToolHandler toStr net request w =
     (case callToolHandler_try toStr net request w of
        (Inl error, w') \<Rightarrow> (Inr (callToolHandler_catch error), w')
      | (Inr env, w') \<Rightarrow> (Inr env, w'))"

definition listToolsHandler :: "world \<Rightarrow> (thrown + tool list) \<times> world" where
  "listToolsHandler w = (Inr TOOLS, w)"

text \<open>The server answers a sequence of requests, one after the other.\<close>

datatype server_request = ListTools | CallTool call_request

datatype server_response = ToolsResult "tool list" | CallResult envelope | Fault thrown

definition serve_one ::
  "('f \<Rightarrow> string) \<Rightarrow> 'f network \<Rightarrow> server_request \<Rightarrow> world \<Rightarrow> server_response \<times> world" where
  "serve_one toStr net rq w =
     (case rq of
        ListTools \<Rightarrow>
          (case listToolsHandler w of
             (Inl e, w') \<Rightarrow> (Fault e, w')
           | (Inr ts, w') \<Rightarrow> (ToolsResult ts, w'))
      | CallTool c \<Rightarrow>
          (case callToolHandler toStr net c w of
             (Inl e, w') \<Rightarrow> (Fault e, w')
           | (Inr env, w') \<Rightarrow> (CallResult env, w')))"

fun serve ::
  "('f \<Rightarrow> string) \<Rightarrow> 'f network \<Rightarrow> server_request list \<Rightarrow> world \<Rightarrow> server_response list \<times> world" where
  "serve toStr net [] w = ([], w)"
| "serve toStr net (rq # rqs) w =
     (case serve_one toStr net rq w of
        (r, w') \<Rightarrow> (case serve toStr net rqs w' of (rs, w'') \<Rightarrow> (r # rs, w'')))"

section \<open>Parsing: \<^verbatim>\<open>JSON.parse\<close>\<close>



















section \<open>The path table of the specification\<close>

text \<open>
  Section 4.3 of the specification gives, for each operation, the path to request once the
  required arguments are known to be present and non-empty. \<open>spec_path\<close> is that table,
  written from the specification; \<open>arg_value\<close> reads \<^verbatim>\<open>{electionid}\<close> and
  \<^verbatim>\<open>{racenumber}\<close>, an absent argument counting as the empty string. The race segment
  of \<^verbatim>\<open>get_election_results\<close> is appended only if \<^verbatim>\<open>racenumber\<close> is provided and
  non-empty.
\<close>

definition arg_value :: "args \<Rightarrow> string \<Rightarrow> string" where
  "arg_value args k = (case args k of None \<Rightarrow> [] | Some s \<Rightarrow> s)"

definition spec_path :: "string \<Rightarrow> args \<Rightarrow> string option" where
  "spec_path name args =
     (if name = ''list_elections'' then Some ''/api/v1/elections/list''
      else if name = ''get_election'' then
        Some (''/api/v1/elections/election/'' @ arg_value args ''electionid'')
      else if name = ''get_last_published'' then
        Some (''/api/v1/elections/lastpublished/'' @ arg_value args ''electionid'')
      else if name = ''get_races'' then
        Some (''/api/v1/elections/races/'' @ arg_value args ''electionid'')
      else if name = ''get_election_results'' then
        Some (''/api/v1/elections/electionresults/'' @ arg_value args ''electionid''
                @ (if arg_value args ''racenumber'' \<noteq> []
                   then ''/'' @ arg_value args ''racenumber'' else []))
      else if name = ''get_precinct_results'' then
        Some (''/api/v1/elections/precinctresults/'' @ arg_value args ''electionid''
                @ ''/'' @ arg_value args ''racenumber'')
      else None)"

section \<open>Results that are read back from their text\<close>






section \<open>Inputs for the examples\<close>

text \<open>
  The examples take the integers for the finite numbers, printed and read in decimal: a
  literal with a fraction or an exponent is not the literal of an integer, and
  \<open>read_integer\<close> gives \<open>NaN\<close> for it. The remote side gives the same outcome to every
  request, and nothing has been sent before.
\<close>

definition string_of_int :: "int \<Rightarrow> string" where
  "string_of_int i =
     (if i < 0 then CHR ''-'' # string_of_nat (nat (- i)) else string_of_nat (nat i))"


definition constant_network :: "'f fetch_outcome \<Rightarrow> 'f network" where
  "constant_network outcome sofar rq = outcome"

definition refusing_network :: "int network" where
  "refusing_network = constant_network (Rejects (Error ''fetch failed''))"


definition empty_world :: world where
  "empty_world = \<lparr>sent = []\<rparr>"

section \<open>The gateway\<close>

lemma makeApiRequest_sent:
  "sent (snd (makeApiRequest net endpoint w)) =
     sent w @ [\<lparr>url = BASE_URL @ endpoint, headers = request_headers\<rparr>]"
  by (simp add: makeApiRequest_def makeApiRequest_try_def fetch_def
      split: prod.splits fetch_outcome.splits sum.splits)

lemma makeApiRequest_fst:
  "fst (makeApiRequest net endpoint w) =
     (case net (sent w) \<lparr>url = BASE_URL @ endpoint, headers = request_headers\<rparr> of
        Rejects e \<Rightarrow> Inl (makeApiRequest_catch e)
      | Resolves r \<Rightarrow>
          if \<not> ok r then
            Inl (makeApiRequest_catch
                   (Error (''API request failed: '' @ string_of_nat (status r)
                             @ '' '' @ statusText r)))
          else (case json r of Inl e \<Rightarrow> Inl (makeApiRequest_catch e) | Inr d \<Rightarrow> Inr d))"
  by (simp add: makeApiRequest_def makeApiRequest_try_def fetch_def
      split: fetch_outcome.splits sum.splits)


text \<open>
  Claim C4. Whatever fails inside the gateway as an \<^verbatim>\<open>Error\<close> instance (a rejected
  \<^verbatim>\<open>fetch\<close>, a status outside 200 to 299, a failing \<^verbatim>\<open>json()\<close>) leaves it as an
  \<^verbatim>\<open>Error\<close> whose message is the fixed prefix followed by the message of the underlying
  error; for a bad status that message holds the status number and the status text. A
  thrown value that is not an \<^verbatim>\<open>Error\<close> instance leaves the gateway unchanged.
\<close>

theorem gateway_failures_normalised:
  "(net (sent w) \<lparr>url = BASE_URL @ endpoint, headers = request_headers\<rparr> = Rejects (Error m)
      \<longrightarrow> fst (makeApiRequest net endpoint w) =
            Inl (Error (''Failed to fetch from Dane County Elections API: '' @ m)))
 \<and> (net (sent w) \<lparr>url = BASE_URL @ endpoint, headers = request_headers\<rparr> = Resolves r
      \<and> \<not> ok r
      \<longrightarrow> fst (makeApiRequest net endpoint w) =
            Inl (Error (''Failed to fetch from Dane County Elections API: ''
                          @ ''API request failed: '' @ string_of_nat (status r)
                          @ '' '' @ statusText r)))
 \<and> (net (sent w) \<lparr>url = BASE_URL @ endpoint, headers = request_headers\<rparr> = Resolves r
      \<and> ok r \<and> json r = Inl (Error m)
      \<longrightarrow> fst (makeApiRequest net endpoint w) =
            Inl (Error (''Failed to fetch from Dane County Elections API: '' @ m)))
 \<and> (net (sent w) \<lparr>url = BASE_URL @ endpoint, headers = request_headers\<rparr> = Rejects (NonError v)
      \<longrightarrow> fst (makeApiRequest net endpoint w) = Inl (NonError v))
 \<and> (net (sent w) \<lparr>url = BASE_URL @ endpoint, headers = request_headers\<rparr> = Resolves r
      \<and> ok r \<and> json r = Inl (NonError v)
      \<longrightarrow> fst (makeApiRequest net endpoint w) = Inl (NonError v))"
  by (simp add: makeApiRequest_fst makeApiRequest_catch_def)

text \<open>The status 500 of the specification, a rejected \<^verbatim>\<open>fetch\<close>, a body that is not JSON and a thrown value that is not an \<^verbatim>\<open>Error\<close>.\<close>

lemma string_of_nat_500: "string_of_nat 500 = ''500''"
  by code_simp

theorem gateway_failures_normalised_witness:
  "\<not> ok \<lparr>status = 500, statusText = ''Internal Server Error'', json = Inr JNull\<rparr>
   \<and> fst (makeApiRequest
            (constant_network
               (Resolves \<lparr>status = 500, statusText = ''Internal Server Error'',
                          json = Inr (JNull :: int json)\<rparr>))
            ''/api/v1/elections/list'' empty_world) =
       Inl (Error (''Failed to fetch from Dane County Elections API: ''
                     @ ''API request failed: 500 Internal Server Error''))
   \<and> fst (makeApiRequest refusing_network
            ''/api/v1/elections/list'' empty_world) =
       Inl (Error ''Failed to fetch from Dane County Elections API: fetch failed'')
   \<and> fst (makeApiRequest
            (constant_network
               (Resolves \<lparr>status = 200, statusText = ''OK'',
                          json = (Inl (Error ''Unexpected end of JSON input'')
                                    :: thrown + int json)\<rparr>))
            ''/api/v1/elections/list'' empty_world) =
       Inl (Error (''Failed to fetch from Dane County Elections API: ''
                     @ ''Unexpected end of JSON input''))
   \<and> fst (makeApiRequest (constant_network (Rejects (NonError ''aborted'') :: int fetch_outcome))
            ''/api/v1/elections/list'' empty_world) =
       Inl (NonError ''aborted'')"
proof -
  let ?r = "\<lparr>status = 500, statusText = ''Internal Server Error'',
             json = Inr (JNull :: int json)\<rparr>"
  let ?d = "\<lparr>status = 200, statusText = ''OK'',
             json = (Inl (Error ''Unexpected end of JSON input'') :: thrown + int json)\<rparr>"
  have nok: "\<not> ok ?r" and okd: "ok ?d"
    by (simp_all add: ok_def)
  from gateway_failures_normalised
         [of "constant_network (Resolves ?r)" empty_world "''/api/v1/elections/list''"
             "[]" ?r "[]"]
    gateway_failures_normalised
         [of refusing_network empty_world
             "''/api/v1/elections/list''" "''fetch failed''" ?r "[]"]
    gateway_failures_normalised
         [of "constant_network (Resolves ?d)" empty_world "''/api/v1/elections/list''"
             "''Unexpected end of JSON input''" ?d "[]"]
    gateway_failures_normalised
         [of "constant_network (Rejects (NonError ''aborted''))" empty_world
             "''/api/v1/elections/list''" "[]" ?r "''aborted''"]
    nok okd
  show ?thesis
    by (simp add: constant_network_def refusing_network_def string_of_nat_500 ok_def)
qed

section \<open>The dispatcher\<close>

lemma handleToolCall_list_elections:
  "handleToolCall net ''list_elections'' args w = makeApiRequest net ''/api/v1/elections/list'' w"
  by (simp add: handleToolCall_def)

lemma handleToolCall_get_election:
  "handleToolCall net ''get_election'' args w =
     (if falsy (args ''electionid'') then (Inl (Error ''electionid is required''), w)
      else makeApiRequest net
             (''/api/v1/elections/election/'' @ interpolate (args ''electionid'')) w)"
  by (simp add: handleToolCall_def)

lemma handleToolCall_get_last_published:
  "handleToolCall net ''get_last_published'' args w =
     (if falsy (args ''electionid'') then (Inl (Error ''electionid is required''), w)
      else makeApiRequest net
             (''/api/v1/elections/lastpublished/'' @ interpolate (args ''electionid'')) w)"
  by (simp add: handleToolCall_def)

lemma handleToolCall_get_races:
  "handleToolCall net ''get_races'' args w =
     (if falsy (args ''electionid'') then (Inl (Error ''electionid is required''), w)
      else makeApiRequest net
             (''/api/v1/elections/races/'' @ interpolate (args ''electionid'')) w)"
  by (simp add: handleToolCall_def)

lemma handleToolCall_get_election_results:
  "handleToolCall net ''get_election_results'' args w =
     (if falsy (args ''electionid'') then (Inl (Error ''electionid is required''), w)
      else makeApiRequest net
             (if \<not> falsy (args ''racenumber'') then
                ''/api/v1/elections/electionresults/'' @ interpolate (args ''electionid'')
                  @ ''/'' @ interpolate (args ''racenumber'')
              else ''/api/v1/elections/electionresults/'' @ interpolate (args ''electionid'')) w)"
  by (simp add: handleToolCall_def)

lemma handleToolCall_get_precinct_results:
  "handleToolCall net ''get_precinct_results'' args w =
     (if falsy (args ''electionid'') \<or> falsy (args ''racenumber'') then
        (Inl (Error ''electionid and racenumber are required''), w)
      else makeApiRequest net
             (''/api/v1/elections/precinctresults/'' @ interpolate (args ''electionid'')
                @ ''/'' @ interpolate (args ''racenumber'')) w)"
  by (simp add: handleToolCall_def)

lemma tool_names: "map tool_name TOOLS =
  [''list_elections'', ''get_election'', ''get_last_published'', ''get_races'',
   ''get_election_results'', ''get_precinct_results'']"
  by (simp add: TOOLS_def)

lemma name_cases:
  "name = ''list_elections'' \<or> name = ''get_election'' \<or> name = ''get_last_published''
   \<or> name = ''get_races'' \<or> name = ''get_election_results''
   \<or> name = ''get_precinct_results'' \<or> name \<notin> set (map tool_name TOOLS)"
  by (auto simp: tool_names)

lemma handleToolCall_unknown:
  assumes "name \<notin> set (map tool_name TOOLS)"
  shows "handleToolCall net name args w = (Inl (Error (''Unknown tool: '' @ name)), w)"
proof -
  from assms have "name \<noteq> ''list_elections''" "name \<noteq> ''get_election''"
    "name \<noteq> ''get_last_published''" "name \<noteq> ''get_races''"
    "name \<noteq> ''get_election_results''" "name \<noteq> ''get_precinct_results''"
    by (simp_all add: tool_names)
  then show ?thesis
    by (simp add: handleToolCall_def)
qed

lemma tools_cases:
  assumes "t \<in> set TOOLS"
  shows "(tool_name t = ''list_elections'' \<and> required_params t = [])
       \<or> (tool_name t = ''get_election'' \<and> required_params t = [''electionid''])
       \<or> (tool_name t = ''get_last_published'' \<and> required_params t = [''electionid''])
       \<or> (tool_name t = ''get_races'' \<and> required_params t = [''electionid''])
       \<or> (tool_name t = ''get_election_results'' \<and> required_params t = [''electionid''])
       \<or> (tool_name t = ''get_precinct_results''
            \<and> required_params t = [''electionid'', ''racenumber''])"
  using assms unfolding TOOLS_def required_params_def
  by (elim set_ConsD [elim_format] disjE) simp_all

lemma spec_path_simps:
  "spec_path ''list_elections'' args = Some ''/api/v1/elections/list''"
  "spec_path ''get_election'' args =
     Some (''/api/v1/elections/election/'' @ arg_value args ''electionid'')"
  "spec_path ''get_last_published'' args =
     Some (''/api/v1/elections/lastpublished/'' @ arg_value args ''electionid'')"
  "spec_path ''get_races'' args =
     Some (''/api/v1/elections/races/'' @ arg_value args ''electionid'')"
  "spec_path ''get_election_results'' args =
     Some (''/api/v1/elections/electionresults/'' @ arg_value args ''electionid''
             @ (if arg_value args ''racenumber'' \<noteq> []
                then ''/'' @ arg_value args ''racenumber'' else []))"
  "spec_path ''get_precinct_results'' args =
     Some (''/api/v1/elections/precinctresults/'' @ arg_value args ''electionid''
             @ ''/'' @ arg_value args ''racenumber'')"
  by (simp_all add: spec_path_def)

lemma truthy_arg:
  assumes "args p = Some v" and "v \<noteq> []"
  shows "\<not> falsy (args p)" and "interpolate (args p) = v" and "arg_value args p = v"
  using assms by (simp_all add: falsy_def interpolate_def arg_value_def)

lemma falsy_arg_value: "falsy (args p) \<longleftrightarrow> arg_value args p = []"
  by (simp add: falsy_def arg_value_def split: option.splits)

lemma interpolate_arg_value: "\<not> falsy (args p) \<Longrightarrow> interpolate (args p) = arg_value args p"
  by (simp add: falsy_def arg_value_def interpolate_def split: option.splits)

text \<open>
  Claim C1. For each of the six descriptors of \<open>TOOLS\<close>, a call of the dispatcher under
  that name with every required argument present and non-empty builds the path that the
  table of the specification gives, is one call of the gateway with that path, and sends
  exactly one request, to the base URL followed by that path.
\<close>

theorem dispatch_builds_table_path:
  assumes "t \<in> set TOOLS"
      and "\<forall>p \<in> set (required_params t). \<exists>v. args p = Some v \<and> v \<noteq> []"
  shows "\<exists>path. spec_path (tool_name t) args = Some path
           \<and> handleToolCall net (tool_name t) args w = makeApiRequest net path w
           \<and> sent (snd (handleToolCall net (tool_name t) args w)) =
               sent w @ [\<lparr>url = BASE_URL @ path, headers = request_headers\<rparr>]"
proof -
  have "\<exists>path. spec_path (tool_name t) args = Some path
           \<and> handleToolCall net (tool_name t) args w = makeApiRequest net path w"
    using tools_cases [OF assms(1)]
  proof (elim disjE conjE)
    assume "tool_name t = ''list_elections''"
    then show ?thesis
      by (simp add: spec_path_simps handleToolCall_list_elections)
  next
    assume n: "tool_name t = ''get_election''" and r: "required_params t = [''electionid'']"
    from assms(2) r obtain e where "args ''electionid'' = Some e" "e \<noteq> []" by auto
    with n show ?thesis
      by (simp add: spec_path_simps handleToolCall_get_election truthy_arg)
  next
    assume n: "tool_name t = ''get_last_published''" and r: "required_params t = [''electionid'']"
    from assms(2) r obtain e where "args ''electionid'' = Some e" "e \<noteq> []" by auto
    with n show ?thesis
      by (simp add: spec_path_simps handleToolCall_get_last_published truthy_arg)
  next
    assume n: "tool_name t = ''get_races''" and r: "required_params t = [''electionid'']"
    from assms(2) r obtain e where "args ''electionid'' = Some e" "e \<noteq> []" by auto
    with n show ?thesis
      by (simp add: spec_path_simps handleToolCall_get_races truthy_arg)
  next
    assume n: "tool_name t = ''get_election_results''" and r: "required_params t = [''electionid'']"
    from assms(2) r obtain e where "args ''electionid'' = Some e" "e \<noteq> []" by auto
    with n show ?thesis
      by (simp add: spec_path_simps handleToolCall_get_election_results truthy_arg
          falsy_arg_value interpolate_arg_value)
  next
    assume n: "tool_name t = ''get_precinct_results''"
      and r: "required_params t = [''electionid'', ''racenumber'']"
    from assms(2) r obtain e where e: "args ''electionid'' = Some e" "e \<noteq> []" by auto
    from assms(2) r obtain rn where "args ''racenumber'' = Some rn" "rn \<noteq> []" by auto
    with n e show ?thesis
      by (simp add: spec_path_simps handleToolCall_get_precinct_results truthy_arg)
  qed
  then show ?thesis
    by (auto simp: makeApiRequest_sent)
qed

text \<open>The precinct results of race 5 of the election \<^verbatim>\<open>2024-general\<close>.\<close>

theorem dispatch_builds_table_path_witness:
  "TOOLS ! 5 \<in> set TOOLS
   \<and> tool_name (TOOLS ! 5) = ''get_precinct_results''
   \<and> required_params (TOOLS ! 5) = [''electionid'', ''racenumber'']
   \<and> spec_path ''get_precinct_results''
        [''electionid'' \<mapsto> ''2024-general'', ''racenumber'' \<mapsto> ''5''] =
      Some ''/api/v1/elections/precinctresults/2024-general/5''
   \<and> handleToolCall refusing_network ''get_precinct_results''
        [''electionid'' \<mapsto> ''2024-general'', ''racenumber'' \<mapsto> ''5''] empty_world =
      makeApiRequest refusing_network
        ''/api/v1/elections/precinctresults/2024-general/5'' empty_world
   \<and> sent (snd (handleToolCall refusing_network ''get_precinct_results''
        [''electionid'' \<mapsto> ''2024-general'', ''racenumber'' \<mapsto> ''5''] empty_world)) =
      [\<lparr>url = ''https://api.danecounty.gov/api/v1/elections/precinctresults/2024-general/5'',
        headers = request_headers\<rparr>]"
proof -
  let ?t = "TOOLS ! 5"
  let ?args = "[''electionid'' \<mapsto> ''2024-general'', ''racenumber'' \<mapsto> ''5'']"
  have t: "?t \<in> set TOOLS"
    by (simp add: TOOLS_def)
  have n: "tool_name ?t = ''get_precinct_results''"
    by (simp add: TOOLS_def)
  have r: "required_params ?t = [''electionid'', ''racenumber'']"
    by (simp add: TOOLS_def required_params_def)
  have a: "\<forall>p \<in> set (required_params ?t). \<exists>v. ?args p = Some v \<and> v \<noteq> []"
    by (simp add: r)
  have p: "spec_path ''get_precinct_results'' ?args =
      Some ''/api/v1/elections/precinctresults/2024-general/5''"
    by (simp add: spec_path_simps arg_value_def)
  from dispatch_builds_table_path
         [where t = ?t and args = ?args and net = refusing_network and w = empty_world, OF t a]
  obtain path where
    "spec_path (tool_name ?t) ?args = Some path"
    "handleToolCall refusing_network (tool_name ?t) ?args empty_world =
       makeApiRequest refusing_network path empty_world"
    "sent (snd (handleToolCall refusing_network (tool_name ?t) ?args empty_world)) =
       sent empty_world @ [\<lparr>url = BASE_URL @ path, headers = request_headers\<rparr>]"
    by blast
  with n p have
    "handleToolCall refusing_network ''get_precinct_results'' ?args empty_world =
       makeApiRequest refusing_network
         ''/api/v1/elections/precinctresults/2024-general/5'' empty_world"
    "sent (snd (handleToolCall refusing_network ''get_precinct_results'' ?args empty_world)) =
       [\<lparr>url = ''https://api.danecounty.gov/api/v1/elections/precinctresults/2024-general/5'',
         headers = request_headers\<rparr>]"
    by (simp_all add: BASE_URL_def empty_world_def)
  with t n r p show ?thesis
    by blast
qed

lemma sublist_electionid_1: "sublist ''electionid'' ''electionid is required''"
proof -
  have "sublist ''electionid'' (''electionid'' @ '' is required'')"
    by (rule sublist_append_rightI)
  then show ?thesis by simp
qed

lemma sublist_electionid_2: "sublist ''electionid'' ''electionid and racenumber are required''"
proof -
  have "sublist ''electionid'' (''electionid'' @ '' and racenumber are required'')"
    by (rule sublist_append_rightI)
  then show ?thesis by simp
qed

lemma sublist_racenumber_2: "sublist ''racenumber'' ''electionid and racenumber are required''"
proof -
  have "sublist ''racenumber'' (''electionid and '' @ ''racenumber'' @ '' are required'')"
    by (rule sublist_appendI)
  then show ?thesis by simp
qed

lemma missing_argument_message:
  assumes "t \<in> set TOOLS"
      and "p \<in> set (required_params t)"
      and "falsy (args p)"
  shows "\<exists>message. handleToolCall net (tool_name t) args w = (Inl (Error message), w)
           \<and> (\<forall>q \<in> set (required_params t). sublist q message)"
  using tools_cases [OF assms(1)]
proof (elim disjE conjE)
  assume "required_params t = []"
  with assms(2) show ?thesis by simp
next
  assume n: "tool_name t = ''get_election''" and r: "required_params t = [''electionid'']"
  from assms(2) r have "p = ''electionid''" by simp
  with assms(3) n r show ?thesis
    by (simp add: handleToolCall_get_election sublist_electionid_1)
next
  assume n: "tool_name t = ''get_last_published''" and r: "required_params t = [''electionid'']"
  from assms(2) r have "p = ''electionid''" by simp
  with assms(3) n r show ?thesis
    by (simp add: handleToolCall_get_last_published sublist_electionid_1)
next
  assume n: "tool_name t = ''get_races''" and r: "required_params t = [''electionid'']"
  from assms(2) r have "p = ''electionid''" by simp
  with assms(3) n r show ?thesis
    by (simp add: handleToolCall_get_races sublist_electionid_1)
next
  assume n: "tool_name t = ''get_election_results''" and r: "required_params t = [''electionid'']"
  from assms(2) r have "p = ''electionid''" by simp
  with assms(3) n r show ?thesis
    by (simp add: handleToolCall_get_election_results sublist_electionid_1)
next
  assume n: "tool_name t = ''get_precinct_results''"
    and r: "required_params t = [''electionid'', ''racenumber'']"
  from assms(2) r have "p = ''electionid'' \<or> p = ''racenumber''" by auto
  with assms(3) have "falsy (args ''electionid'') \<or> falsy (args ''racenumber'')" by auto
  with n r show ?thesis
    by (simp add: handleToolCall_get_precinct_results sublist_electionid_2 sublist_racenumber_2)
qed

text \<open>
  Claim C2. For an operation that declares required arguments, if one of them is missing
  or is the empty string, the dispatcher throws an \<^verbatim>\<open>Error\<close> whose message contains the
  name of that parameter, and the world is unchanged: no request is sent, the gateway is
  not invoked.
\<close>

theorem missing_required_argument_fails:
  assumes "t \<in> set TOOLS"
      and "p \<in> set (required_params t)"
      and "args p = None \<or> args p = Some []"
  shows "\<exists>message. handleToolCall net (tool_name t) args w = (Inl (Error message), w)
           \<and> sublist p message
           \<and> sent (snd (handleToolCall net (tool_name t) args w)) = sent w"
proof -
  from assms(3) have "falsy (args p)"
    by (auto simp: falsy_def)
  from missing_argument_message [where args = args and net = net and w = w, OF assms(1) assms(2) this]
    assms(2)
  show ?thesis by auto
qed

text \<open>The example of the specification: \<^verbatim>\<open>get_precinct_results\<close> without \<^verbatim>\<open>racenumber\<close>.\<close>

theorem missing_required_argument_fails_witness:
  "TOOLS ! 5 \<in> set TOOLS
   \<and> ''racenumber'' \<in> set (required_params (TOOLS ! 5))
   \<and> [''electionid'' \<mapsto> ''2024-general''] ''racenumber'' = None
   \<and> handleToolCall refusing_network
        ''get_precinct_results'' [''electionid'' \<mapsto> ''2024-general''] empty_world =
      (Inl (Error ''electionid and racenumber are required''), empty_world)
   \<and> sublist ''racenumber'' ''electionid and racenumber are required''"
proof -
  let ?t = "TOOLS ! 5"
  let ?args = "[''electionid'' \<mapsto> ''2024-general'']"
  have t: "?t \<in> set TOOLS"
    by (simp add: TOOLS_def)
  have n: "tool_name ?t = ''get_precinct_results''"
    by (simp add: TOOLS_def)
  have r: "''racenumber'' \<in> set (required_params ?t)"
    by (simp add: TOOLS_def required_params_def)
  have a: "?args ''racenumber'' = None"
    by simp
  then have a': "?args ''racenumber'' = None \<or> ?args ''racenumber'' = Some []" ..
  have h: "handleToolCall refusing_network ''get_precinct_results'' ?args empty_world =
      (Inl (Error ''electionid and racenumber are required''), empty_world)"
    by (simp add: handleToolCall_get_precinct_results falsy_def)
  from missing_required_argument_fails
         [where t = ?t and p = "''racenumber''" and args = ?args
            and net = refusing_network and w = empty_world, OF t r a']
  obtain message where
    "handleToolCall refusing_network (tool_name ?t) ?args empty_world =
       (Inl (Error message), empty_world)"
    "sublist ''racenumber'' message"
    by blast
  with n h have "sublist ''racenumber'' ''electionid and racenumber are required''"
    by simp
  with t r a h show ?thesis
    by blast
qed

text \<open>
  Claim C3. \<^verbatim>\<open>get_election_results\<close> with a present, non-empty \<^verbatim>\<open>electionid\<close> requests
  the path with the race segment if \<^verbatim>\<open>racenumber\<close> is provided and non-empty, and the
  path without it if \<^verbatim>\<open>racenumber\<close> is absent or the empty string.
\<close>

theorem election_results_path:
  assumes "args ''electionid'' = Some e" and "e \<noteq> []"
  shows "handleToolCall net ''get_election_results'' args w =
           makeApiRequest net
             (case args ''racenumber'' of
                None \<Rightarrow> ''/api/v1/elections/electionresults/'' @ e
              | Some r \<Rightarrow>
                  if r = [] then ''/api/v1/elections/electionresults/'' @ e
                  else ''/api/v1/elections/electionresults/'' @ e @ ''/'' @ r) w"
  using assms
  by (simp add: handleToolCall_get_election_results falsy_def interpolate_def
      split: option.splits)

text \<open>The two examples of the specification, and the empty race number.\<close>

theorem election_results_path_witness:
  "handleToolCall refusing_network
     ''get_election_results'' [''electionid'' \<mapsto> ''2024-general''] empty_world =
   makeApiRequest refusing_network
     ''/api/v1/elections/electionresults/2024-general'' empty_world
   \<and> handleToolCall refusing_network
     ''get_election_results'' [''electionid'' \<mapsto> ''2024-general'', ''racenumber'' \<mapsto> ''5'']
     empty_world =
   makeApiRequest refusing_network
     ''/api/v1/elections/electionresults/2024-general/5'' empty_world
   \<and> handleToolCall refusing_network
     ''get_election_results'' [''electionid'' \<mapsto> ''2024-general'', ''racenumber'' \<mapsto> []]
     empty_world =
   makeApiRequest refusing_network
     ''/api/v1/elections/electionresults/2024-general'' empty_world"
  using election_results_path
      [of "[''electionid'' \<mapsto> ''2024-general'']" "''2024-general''"
          refusing_network empty_world]
    election_results_path
      [of "[''electionid'' \<mapsto> ''2024-general'', ''racenumber'' \<mapsto> ''5'']" "''2024-general''"
          refusing_network empty_world]
    election_results_path
      [of "[''electionid'' \<mapsto> ''2024-general'', ''racenumber'' \<mapsto> []]" "''2024-general''"
          refusing_network empty_world]
  by simp

text \<open>
  Claim C9, as stated, fails: the arguments are interpolated as they are, so an
  \<^verbatim>\<open>electionid\<close> holding a question mark gives a requested path with a query component.
\<close>

theorem path_without_query_counterexample:
  "handleToolCall refusing_network ''get_election''
     [''electionid'' \<mapsto> ''2024?format=xml''] empty_world =
   makeApiRequest refusing_network ''/api/v1/elections/election/2024?format=xml'' empty_world
   \<and> sent (snd (handleToolCall refusing_network ''get_election''
                  [''electionid'' \<mapsto> ''2024?format=xml''] empty_world)) =
       [\<lparr>url = ''https://api.danecounty.gov/api/v1/elections/election/2024?format=xml'',
         headers = request_headers\<rparr>]
   \<and> CHR ''?'' \<in> set ''/api/v1/elections/election/2024?format=xml''"
  by (simp add: handleToolCall_get_election falsy_def interpolate_def makeApiRequest_sent
      empty_world_def BASE_URL_def)

lemma BASE_URL_no_query: "CHR ''?'' \<notin> set BASE_URL"
  by (simp add: BASE_URL_def)

text \<open>
  Claim C9, amended. A call sends no request or exactly one, to the base URL followed by
  the path the dispatcher built, and a question mark occurs in that URL only if it occurs
  in the value of \<^verbatim>\<open>electionid\<close> or of \<^verbatim>\<open>racenumber\<close>: the dispatcher itself adds no
  query component, and for arguments without a question mark the path has none.
\<close>

theorem query_only_from_arguments:
  "sent (snd (handleToolCall net name args w)) = sent w
   \<or> (\<exists>path. handleToolCall net name args w = makeApiRequest net path w
          \<and> sent (snd (handleToolCall net name args w)) =
              sent w @ [\<lparr>url = BASE_URL @ path, headers = request_headers\<rparr>]
          \<and> (CHR ''?'' \<in> set (BASE_URL @ path)
               \<longrightarrow> CHR ''?'' \<in> set (arg_value args ''electionid'')
                    \<or> CHR ''?'' \<in> set (arg_value args ''racenumber'')))"
  using name_cases [of name]
proof (elim disjE)
  assume "name = ''list_elections''"
  then show ?thesis
    by (simp add: handleToolCall_list_elections makeApiRequest_sent BASE_URL_no_query)
next
  assume "name = ''get_election''"
  then show ?thesis
    by (simp add: handleToolCall_get_election makeApiRequest_sent BASE_URL_no_query
        interpolate_arg_value)
next
  assume "name = ''get_last_published''"
  then show ?thesis
    by (simp add: handleToolCall_get_last_published makeApiRequest_sent BASE_URL_no_query
        interpolate_arg_value)
next
  assume "name = ''get_races''"
  then show ?thesis
    by (simp add: handleToolCall_get_races makeApiRequest_sent BASE_URL_no_query
        interpolate_arg_value)
next
  assume "name = ''get_election_results''"
  then show ?thesis
    by (simp add: handleToolCall_get_election_results makeApiRequest_sent BASE_URL_no_query
        interpolate_arg_value)
next
  assume "name = ''get_precinct_results''"
  then show ?thesis
    by (simp add: handleToolCall_get_precinct_results makeApiRequest_sent BASE_URL_no_query
        interpolate_arg_value)
next
  assume "name \<notin> set (map tool_name TOOLS)"
  then show ?thesis
    by (simp add: handleToolCall_unknown)
qed

theorem query_only_from_arguments_witness:
  "CHR ''?'' \<notin> set (arg_value [''electionid'' \<mapsto> ''2024-general''] ''electionid'')
   \<and> CHR ''?'' \<notin> set (arg_value [''electionid'' \<mapsto> ''2024-general''] ''racenumber'')
   \<and> sent (snd (handleToolCall refusing_network ''get_election''
                  [''electionid'' \<mapsto> ''2024-general''] empty_world)) \<noteq> sent empty_world
   \<and> (\<exists>path. sent (snd (handleToolCall refusing_network ''get_election''
                  [''electionid'' \<mapsto> ''2024-general''] empty_world)) =
              sent empty_world @ [\<lparr>url = BASE_URL @ path, headers = request_headers\<rparr>]
          \<and> CHR ''?'' \<notin> set (BASE_URL @ path))"
proof -
  let ?args = "[''electionid'' \<mapsto> ''2024-general'']"
  have a: "CHR ''?'' \<notin> set (arg_value ?args ''electionid'')"
    "CHR ''?'' \<notin> set (arg_value ?args ''racenumber'')"
    by (simp_all add: arg_value_def)
  have s: "sent (snd (handleToolCall refusing_network ''get_election'' ?args empty_world))
        \<noteq> sent empty_world"
    by (simp add: handleToolCall_get_election falsy_def makeApiRequest_sent)
  from query_only_from_arguments
         [where net = refusing_network and name = "''get_election''" and args = ?args
            and w = empty_world] a s
  show ?thesis
    by blast
qed

section \<open>The call handler\<close>

lemma callToolHandler_unfold:
  "callToolHandler toStr net request w =
     (case handleToolCall net (params_name request)
             (case params_arguments request of None \<Rightarrow> Map.empty | Some a \<Rightarrow> a) w of
        (Inl error, w') \<Rightarrow> (Inr (callToolHandler_catch error), w')
      | (Inr result, w') \<Rightarrow>
          (Inr \<lparr>content = [\<lparr>block_type = ''text'',
                             block_text = JSON_stringify toStr result\<rparr>],
                isError = None\<rparr>, w'))"
  by (simp add: callToolHandler_def callToolHandler_try_def Let_def
      split: prod.splits sum.splits)

text \<open>
  Claim C5. A call under a name that is not one of the six registered names is answered by
  the envelope whose single text block reads \<^verbatim>\<open>Error: Unknown tool: <name>\<close>, with the
  error flag set, and the world is unchanged: no request is sent.
\<close>

theorem unknown_tool_envelope:
  assumes "name \<notin> set (map tool_name TOOLS)"
  shows "callToolHandler toStr net \<lparr>params_name = name, params_arguments = a\<rparr> w =
           (Inr \<lparr>content = [\<lparr>block_type = ''text'',
                              block_text = ''Error: Unknown tool: '' @ name\<rparr>],
                 isError = Some True\<rparr>, w)"
  by (simp add: callToolHandler_unfold handleToolCall_unknown [OF assms]
      callToolHandler_catch_def)

text \<open>The example of the specification: \<^verbatim>\<open>delete_election\<close>.\<close>

theorem unknown_tool_envelope_witness:
  "''delete_election'' \<notin> set (map tool_name TOOLS)
   \<and> callToolHandler string_of_int refusing_network
        \<lparr>params_name = ''delete_election'', params_arguments = None\<rparr> empty_world =
      (Inr \<lparr>content = [\<lparr>block_type = ''text'',
                         block_text = ''Error: Unknown tool: delete_election''\<rparr>],
            isError = Some True\<rparr>, empty_world)"
proof -
  have n: "''delete_election'' \<notin> set (map tool_name TOOLS)"
    by (simp add: tool_names)
  from unknown_tool_envelope
         [where name = "''delete_election''" and toStr = string_of_int
            and net = refusing_network and a = None and w = empty_world, OF n] n
  show ?thesis
    by simp
qed

text \<open>
  Claim C7. The call handler never throws: it always returns an envelope, so the server
  never answers a call with a fault. Whenever the dispatcher throws, whatever the reason,
  the envelope has the error flag set and a single text block \<^verbatim>\<open>Error: <message>\<close>,
  where the message is that of the \<^verbatim>\<open>Error\<close> thrown (and the fixed words of the handler
  for a thrown value that is not an \<^verbatim>\<open>Error\<close>).
\<close>

theorem call_errors_become_envelopes:
  "\<exists>env w'. callToolHandler toStr net request w = (Inr env, w')
      \<and> fst (serve_one toStr net (CallTool request) w) = CallResult env
      \<and> (\<forall>e. fst (handleToolCall net (params_name request)
                     (case params_arguments request of None \<Rightarrow> Map.empty | Some a \<Rightarrow> a) w) = Inl e
             \<longrightarrow> env = \<lparr>content =
                          [\<lparr>block_type = ''text'',
                            block_text = ''Error: '' @
                              (case e of Error message \<Rightarrow> message
                                       | NonError v \<Rightarrow> ''Unknown error occurred'')\<rparr>],
                        isError = Some True\<rparr>)"
  by (simp add: serve_one_def callToolHandler_unfold callToolHandler_catch_def
      split: prod.splits sum.splits)

lemma refused_list_elections:
  "handleToolCall refusing_network ''list_elections'' Map.empty empty_world =
     (Inl (Error ''Failed to fetch from Dane County Elections API: fetch failed''),
      \<lparr>sent = [\<lparr>url = ''https://api.danecounty.gov/api/v1/elections/list'',
                 headers = request_headers\<rparr>]\<rparr>)"
  by (simp add: handleToolCall_list_elections makeApiRequest_def makeApiRequest_try_def
      fetch_def refusing_network_def constant_network_def makeApiRequest_catch_def
      empty_world_def BASE_URL_def)

theorem call_errors_become_envelopes_witness:
  "fst (handleToolCall refusing_network ''list_elections'' Map.empty empty_world) =
     Inl (Error ''Failed to fetch from Dane County Elections API: fetch failed'')
   \<and> fst (callToolHandler string_of_int refusing_network
            \<lparr>params_name = ''list_elections'', params_arguments = None\<rparr> empty_world) =
       Inr \<lparr>content =
              [\<lparr>block_type = ''text'',
                block_text =
                  ''Error: Failed to fetch from Dane County Elections API: fetch failed''\<rparr>],
            isError = Some True\<rparr>"
proof -
  let ?rq = "\<lparr>params_name = ''list_elections'', params_arguments = None\<rparr>"
  from call_errors_become_envelopes
         [where toStr = string_of_int and net = refusing_network and request = ?rq
            and w = empty_world]
  obtain env w' where
    c: "callToolHandler string_of_int refusing_network ?rq empty_world = (Inr env, w')"
    and e: "\<forall>e. fst (handleToolCall refusing_network (params_name ?rq)
                     (case params_arguments ?rq of None \<Rightarrow> Map.empty | Some a \<Rightarrow> a)
                     empty_world) = Inl e
             \<longrightarrow> env = \<lparr>content =
                          [\<lparr>block_type = ''text'',
                            block_text = ''Error: '' @
                              (case e of Error message \<Rightarrow> message
                                       | NonError v \<Rightarrow> ''Unknown error occurred'')\<rparr>],
                        isError = Some True\<rparr>"
    by blast
  have h: "fst (handleToolCall refusing_network ''list_elections'' Map.empty empty_world) =
     Inl (Error ''Failed to fetch from Dane County Elections API: fetch failed'')"
    by (simp add: refused_list_elections)
  with e have "env = \<lparr>content =
              [\<lparr>block_type = ''text'',
                block_text =
                  ''Error: Failed to fetch from Dane County Elections API: fetch failed''\<rparr>],
            isError = Some True\<rparr>"
    by simp
  with c h show ?thesis
    by simp
qed

text \<open>
  Claim C10. A call without an arguments mapping is handled as the call with the empty
  mapping: \<^verbatim>\<open>list_elections\<close> returns the success envelope whenever the gateway returns a
  value, and every operation with required parameters returns the envelope of a validation
  error, naming its required parameters, without sending a request. When the dispatcher
  throws a value that is not an \<^verbatim>\<open>Error\<close> instance, the text of the envelope is
  \<^verbatim>\<open>Error: Unknown error occurred\<close>.
\<close>

theorem absent_arguments_and_unknown_errors:
  "callToolHandler toStr net \<lparr>params_name = name, params_arguments = None\<rparr> w =
     callToolHandler toStr net \<lparr>params_name = name, params_arguments = Some Map.empty\<rparr> w
   \<and> (makeApiRequest net ''/api/v1/elections/list'' w = (Inr data, w') \<longrightarrow>
        callToolHandler toStr net
          \<lparr>params_name = ''list_elections'', params_arguments = None\<rparr> w =
        (Inr \<lparr>content = [\<lparr>block_type = ''text'', block_text = JSON_stringify toStr data\<rparr>],
              isError = None\<rparr>, w'))
   \<and> (\<forall>t \<in> set TOOLS. required_params t \<noteq> [] \<longrightarrow>
        (\<exists>message.
           callToolHandler toStr net
             \<lparr>params_name = tool_name t, params_arguments = None\<rparr> w =
           (Inr \<lparr>content = [\<lparr>block_type = ''text'', block_text = ''Error: '' @ message\<rparr>],
                 isError = Some True\<rparr>, w)
           \<and> (\<forall>q \<in> set (required_params t). sublist q message)))
   \<and> (handleToolCall net (params_name request)
         (case params_arguments request of None \<Rightarrow> Map.empty | Some a \<Rightarrow> a) w =
         (Inl (NonError v), w') \<longrightarrow>
        callToolHandler toStr net request w =
        (Inr \<lparr>content = [\<lparr>block_type = ''text'',
                           block_text = ''Error: Unknown error occurred''\<rparr>],
              isError = Some True\<rparr>, w'))"
proof (intro conjI ballI impI)
  show "callToolHandler toStr net \<lparr>params_name = name, params_arguments = None\<rparr> w =
     callToolHandler toStr net \<lparr>params_name = name, params_arguments = Some Map.empty\<rparr> w"
    by (simp add: callToolHandler_unfold)
next
  assume "makeApiRequest net ''/api/v1/elections/list'' w = (Inr data, w')"
  then show "callToolHandler toStr net
          \<lparr>params_name = ''list_elections'', params_arguments = None\<rparr> w =
        (Inr \<lparr>content = [\<lparr>block_type = ''text'', block_text = JSON_stringify toStr data\<rparr>],
              isError = None\<rparr>, w')"
    by (simp add: callToolHandler_unfold handleToolCall_list_elections)
next
  fix t assume t: "t \<in> set TOOLS" and r: "required_params t \<noteq> []"
  from r obtain p where p: "p \<in> set (required_params t)"
    by (cases "required_params t") auto
  have "falsy (Map.empty p)"
    by (simp add: falsy_def)
  from missing_argument_message [where args = Map.empty and net = net and w = w, OF t p this]
  show "\<exists>message.
           callToolHandler toStr net
             \<lparr>params_name = tool_name t, params_arguments = None\<rparr> w =
           (Inr \<lparr>content = [\<lparr>block_type = ''text'', block_text = ''Error: '' @ message\<rparr>],
                 isError = Some True\<rparr>, w)
           \<and> (\<forall>q \<in> set (required_params t). sublist q message)"
    by (auto simp: callToolHandler_unfold callToolHandler_catch_def)
next
  assume "handleToolCall net (params_name request)
         (case params_arguments request of None \<Rightarrow> Map.empty | Some a \<Rightarrow> a) w =
         (Inl (NonError v), w')"
  then show "callToolHandler toStr net request w =
        (Inr \<lparr>content = [\<lparr>block_type = ''text'',
                           block_text = ''Error: Unknown error occurred''\<rparr>],
              isError = Some True\<rparr>, w')"
    by (simp add: callToolHandler_unfold callToolHandler_catch_def)
qed

theorem absent_arguments_and_unknown_errors_witness:
  "makeApiRequest (constant_network
       (Resolves \<lparr>status = 200, statusText = ''OK'', json = Inr (JArray [] :: int json)\<rparr>))
     ''/api/v1/elections/list'' empty_world =
     (Inr (JArray []),
      \<lparr>sent = [\<lparr>url = ''https://api.danecounty.gov/api/v1/elections/list'',
                 headers = request_headers\<rparr>]\<rparr>)
   \<and> callToolHandler string_of_int
        (constant_network
           (Resolves \<lparr>status = 200, statusText = ''OK'', json = Inr (JArray [] :: int json)\<rparr>))
        \<lparr>params_name = ''list_elections'', params_arguments = None\<rparr> empty_world =
      (Inr \<lparr>content = [\<lparr>block_type = ''text'', block_text = ''[]''\<rparr>], isError = None\<rparr>,
       \<lparr>sent = [\<lparr>url = ''https://api.danecounty.gov/api/v1/elections/list'',
                 headers = request_headers\<rparr>]\<rparr>)
   \<and> TOOLS ! 1 \<in> set TOOLS
   \<and> required_params (TOOLS ! 1) = [''electionid'']
   \<and> (\<exists>message.
         callToolHandler string_of_int refusing_network
           \<lparr>params_name = ''get_election'', params_arguments = None\<rparr> empty_world =
         (Inr \<lparr>content = [\<lparr>block_type = ''text'', block_text = ''Error: '' @ message\<rparr>],
               isError = Some True\<rparr>, empty_world)
         \<and> sublist ''electionid'' message)
   \<and> callToolHandler string_of_int (constant_network (Rejects (NonError ''aborted'')) :: int network)
        \<lparr>params_name = ''list_elections'', params_arguments = None\<rparr> empty_world =
      (Inr \<lparr>content = [\<lparr>block_type = ''text'',
                         block_text = ''Error: Unknown error occurred''\<rparr>],
            isError = Some True\<rparr>,
       \<lparr>sent = [\<lparr>url = ''https://api.danecounty.gov/api/v1/elections/list'',
                 headers = request_headers\<rparr>]\<rparr>)"
proof -
  let ?oknet = "constant_network
       (Resolves \<lparr>status = 200, statusText = ''OK'', json = Inr (JArray [] :: int json)\<rparr>)"
  let ?badnet = "constant_network (Rejects (NonError ''aborted'')) :: int network"
  let ?w' = "\<lparr>sent = [\<lparr>url = ''https://api.danecounty.gov/api/v1/elections/list'',
                 headers = request_headers\<rparr>]\<rparr>"
  let ?rq = "\<lparr>params_name = ''list_elections'', params_arguments = None\<rparr>"
  have m: "makeApiRequest ?oknet ''/api/v1/elections/list'' empty_world =
             (Inr (JArray []), ?w')"
    by (simp add: makeApiRequest_def makeApiRequest_try_def fetch_def constant_network_def
        ok_def empty_world_def BASE_URL_def)
  have b: "handleToolCall ?badnet (params_name ?rq)
             (case params_arguments ?rq of None \<Rightarrow> Map.empty | Some a \<Rightarrow> a) empty_world =
           (Inl (NonError ''aborted''), ?w')"
    by (simp add: handleToolCall_list_elections makeApiRequest_def makeApiRequest_try_def
        fetch_def constant_network_def makeApiRequest_catch_def empty_world_def BASE_URL_def)
  have t: "TOOLS ! 1 \<in> set TOOLS"
    by (simp add: TOOLS_def)
  have n: "tool_name (TOOLS ! 1) = ''get_election''"
    by (simp add: TOOLS_def)
  have r: "required_params (TOOLS ! 1) = [''electionid'']"
    by (simp add: TOOLS_def required_params_def)
  have j: "JSON_stringify string_of_int (JArray []) = ''[]''"
    by (simp add: JSON_stringify_def)
  note th1 = absent_arguments_and_unknown_errors
         [where toStr = string_of_int and net = ?oknet and w = empty_world
            and data = "JArray []" and w' = ?w' and name = "''list_elections''"
            and request = ?rq and v = "''aborted''"]
  note th2 = absent_arguments_and_unknown_errors
         [where toStr = string_of_int and net = refusing_network and w = empty_world
            and data = "JArray []" and w' = ?w' and name = "''list_elections''"
            and request = ?rq and v = "''aborted''"]
  note th3 = absent_arguments_and_unknown_errors
         [where toStr = string_of_int and net = ?badnet and w = empty_world
            and data = "JArray []" and w' = ?w' and name = "''list_elections''"
            and request = ?rq and v = "''aborted''"]
  from th1 [THEN conjunct2, THEN conjunct1, rule_format, OF m] j have c1: "callToolHandler string_of_int ?oknet ?rq empty_world =
      (Inr \<lparr>content = [\<lparr>block_type = ''text'', block_text = ''[]''\<rparr>], isError = None\<rparr>, ?w')"
    by simp
  from th2 t r n have c2: "\<exists>message.
         callToolHandler string_of_int refusing_network
           \<lparr>params_name = ''get_election'', params_arguments = None\<rparr> empty_world =
         (Inr \<lparr>content = [\<lparr>block_type = ''text'', block_text = ''Error: '' @ message\<rparr>],
               isError = Some True\<rparr>, empty_world)
         \<and> sublist ''electionid'' message"
    by fastforce
  from th3 b have c3: "callToolHandler string_of_int ?badnet ?rq empty_world =
      (Inr \<lparr>content = [\<lparr>block_type = ''text'',
                         block_text = ''Error: Unknown error occurred''\<rparr>],
            isError = Some True\<rparr>, ?w')"
    by blast
  from m c1 t r c2 c3 show ?thesis
    by blast
qed

section \<open>The registry\<close>

lemma serve_list_tools:
  "fst (serve_one toStr net ListTools w) = ToolsResult TOOLS"
  by (simp add: serve_one_def listToolsHandler_def)

text \<open>
  Claim C8. The list handler returns \<open>TOOLS\<close> in every world, hence after any sequence of
  earlier requests; \<open>TOOLS\<close> has six descriptors, with the six names and the required
  parameters of the table of section 4.1, and no two descriptors share a name.
\<close>

theorem list_tools_catalog:
  "listToolsHandler w = (Inr TOOLS, w)
   \<and> fst (serve_one toStr net ListTools (snd (serve toStr net rqs w))) = ToolsResult TOOLS
   \<and> length TOOLS = 6
   \<and> map tool_name TOOLS =
       [''list_elections'', ''get_election'', ''get_last_published'', ''get_races'',
        ''get_election_results'', ''get_precinct_results'']
   \<and> map required_params TOOLS =
       [[], [''electionid''], [''electionid''], [''electionid''], [''electionid''],
        [''electionid'', ''racenumber'']]
   \<and> distinct (map tool_name TOOLS)"
proof -
  have "map required_params TOOLS =
       [[], [''electionid''], [''electionid''], [''electionid''], [''electionid''],
        [''electionid'', ''racenumber'']]"
    by (simp add: TOOLS_def required_params_def)
  moreover have "distinct (map tool_name TOOLS)"
    by (simp add: tool_names)
  moreover have "length TOOLS = 6"
    by (simp add: TOOLS_def)
  ultimately show ?thesis
    by (simp add: serve_list_tools listToolsHandler_def tool_names)
qed

text \<open>The catalog after a call that reaches the network, a listing and a call that fails.\<close>

theorem list_tools_catalog_witness:
  "fst (serve_one string_of_int refusing_network ListTools
          (snd (serve string_of_int refusing_network
                  [CallTool \<lparr>params_name = ''list_elections'', params_arguments = None\<rparr>,
                   ListTools,
                   CallTool \<lparr>params_name = ''delete_election'', params_arguments = None\<rparr>]
                  empty_world))) =
     ToolsResult TOOLS
   \<and> map tool_name TOOLS =
       [''list_elections'', ''get_election'', ''get_last_published'', ''get_races'',
        ''get_election_results'', ''get_precinct_results'']"
  using list_tools_catalog
          [where toStr = string_of_int and net = refusing_network and w = empty_world
             and rqs = "[CallTool \<lparr>params_name = ''list_elections'', params_arguments = None\<rparr>,
                   ListTools,
                   CallTool \<lparr>params_name = ''delete_election'', params_arguments = None\<rparr>]"]
  by blast

section \<open>Serialisation and parsing\<close>

subsection \<open>Strings\<close>





subsection \<open>Number literals\<close>











subsection \<open>White space and the start of a value\<close>











subsection \<open>Objects without repeated keys\<close>



subsection \<open>The parser reads what the serialiser writes\<close>










end
